theory Spec2Isabelle
  imports Complex_Main
begin

section \<open>Study-mode reading interface: the shared data model\<close>

text \<open>
  The interfaces of the root component (the file that defines \<open>App\<close>) and of
  \<open>components/TableOfContents.tsx\<close> and \<open>components/ToolPanel.tsx\<close>. A TypeScript
  interface is a record, an optional or nullable field is an \<open>option\<close>. Page numbers are the
  integers among the JavaScript numbers; pixel widths are real numbers (the rounding of IEEE
  doubles is not modelled). Strings are \<open>string\<close>.
\<close>

record Section =
  section_id :: string
  title :: string
  page :: int

record Chapter =
  chapter_id :: string
  chapter_number :: string
  title :: string
  sections :: "Section list option"

record TOC =
  book_id :: string
  chapters :: "Chapter list"

record Document =
  document_id :: string
  user_id :: string
  document_title :: string
  file_name :: string
  created_at :: string

record LastPosition =
  page_number :: int
  last_chapter_id :: "string option"
  last_section_id :: "string option"
  updated_at :: string

record StudyModeData =
  document :: Document
  chat_session_id :: string
  toc :: "TOC option"
  last_position :: LastPosition

text \<open>
  The notifications of \<open>sonner\<close>'s \<open>toast\<close> and the lines written to the console are
  effects; the model appends them to lists kept in the state.
\<close>

datatype toast = Toast_success string | Toast_info string | Toast_error string

datatype console_entry = Position_updated int "string option" "string option"

text \<open>
  The value of \<open>Math.max\<close> on integer arguments: the greatest of them, and \<open>-Infinity\<close>
  when there is none.
\<close>

datatype js_number = NegInfinity | Finite int

fun Math_max :: "int list \<Rightarrow> js_number" where
  "Math_max [] = NegInfinity"
| "Math_max (x # xs) =
     (case Math_max xs of NegInfinity \<Rightarrow> Finite x | Finite m \<Rightarrow> Finite (max x m))"

text \<open>
  The decimal numeral that a template literal writes for an integer (\<open>`${page}`\<close>,
  \<open>Date.now().toString()\<close>).
\<close>

definition digit_char :: "nat \<Rightarrow> char" where
  "digit_char d = char_of (48 + d)"

function decimal :: "nat \<Rightarrow> string" where
  "decimal n = (if n < 10 then [digit_char n] else decimal (n div 10) @ [digit_char (n mod 10)])"
  by pat_completeness auto
termination
  by (relation "measure (\<lambda>n. n)") auto

declare decimal.simps [simp del]

definition number_toString :: "int \<Rightarrow> string" where
  "number_toString i = (if i < 0 then CHR ''-'' # decimal (nat (- i)) else decimal (nat i))"

section \<open>The root component \<open>App\<close>\<close>

text \<open>
  The state of \<open>App\<close>: one field for each \<open>useState\<close> hook that the modelled handlers
  read or write, and the two effect lists. \<open>containerRef.current\<close> is the DOM element of the
  main content area; what the handlers read of it is its bounding rectangle.
\<close>

record DOMRect =
  rect_left :: real
  rect_width :: real

record App =
  studyData :: "StudyModeData option"
  currentPage :: int
  isTOCCollapsed :: bool
  isMobile :: bool
  rightPanelWidth :: real
  isResizing :: bool
  isLoading :: bool
  isPDFHidden :: bool
  containerRef :: "DOMRect option"
  toasts :: "toast list"
  console :: "console_entry list"

text \<open>The initial values of the \<open>useState\<close> hooks, before the study data is loaded.\<close>

definition App_initial :: App where
  "App_initial =
     \<lparr>studyData = None, currentPage = 1, isTOCCollapsed = False, isMobile = False,
      rightPanelWidth = 320, isResizing = False, isLoading = True, isPDFHidden = False,
      containerRef = None, toasts = [], console = []\<rparr>"

text \<open>
  \<open>const totalPages = studyData?.toc ? Math.max(...chapters.flatMap(chapter =>
  chapter.sections ? chapter.sections.map(section => section.page) : [1])) : 100\<close>.
  An array is truthy also when it is empty, so only a \<open>null\<close> sections field gives \<open>[1]\<close>.
\<close>

definition chapter_pages :: "Chapter \<Rightarrow> int list" where
  "chapter_pages chapter =
     (case sections chapter of Some ss \<Rightarrow> map page ss | None \<Rightarrow> [1])"

definition flatMap :: "('a \<Rightarrow> 'b list) \<Rightarrow> 'a list \<Rightarrow> 'b list" where
  "flatMap f xs = concat (map f xs)"

text \<open>\<open>studyData?.toc\<close>: undefined without study data and when the optional field is absent.\<close>

definition studyData_toc :: "App \<Rightarrow> TOC option" where
  "studyData_toc st = (case studyData st of None \<Rightarrow> None | Some d \<Rightarrow> toc d)"

definition totalPages :: "App \<Rightarrow> js_number" where
  "totalPages st =
     (case studyData_toc st of
        None \<Rightarrow> Finite 100
      | Some t \<Rightarrow> Math_max (flatMap chapter_pages (chapters t)))"

text \<open>\<open>const hasTOC = studyData?.toc?.chapters && studyData.toc.chapters.length > 0\<close>.\<close>

definition hasTOC :: "App \<Rightarrow> bool" where
  "hasTOC st = (case studyData_toc st of None \<Rightarrow> False | Some t \<Rightarrow> length (chapters t) > 0)"

text \<open>\<open>const tocWidth = !hasTOC || isPDFHidden ? 0 : (isTOCCollapsed ? 48 : 240)\<close>.\<close>

definition tocWidth :: "App \<Rightarrow> int" where
  "tocWidth st =
     (if \<not> hasTOC st \<or> isPDFHidden st then 0 else (if isTOCCollapsed st then 48 else 240))"

text \<open>
  Whether \<open>App\<close> renders the \<open>TableOfContents\<close> component. While \<open>isLoading || !studyData\<close>
  it returns the loading screen; after that both the stacked (mobile) and the side-by-side
  branch render the contents pane under \<open>hasTOC && !isPDFHidden\<close>.
\<close>

definition renders_TableOfContents :: "App \<Rightarrow> bool" where
  "renders_TableOfContents st =
     (if isLoading st \<or> studyData st = None then False
      else if isMobile st then hasTOC st \<and> \<not> isPDFHidden st
      else hasTOC st \<and> \<not> isPDFHidden st)"

text \<open>
  \<open>initializeStudyMode\<close> stores the study data of the mocked service and the last read
  position, and ends the loading phase. (It also loads the chat history, which is not
  modelled.)
\<close>

definition mockData :: StudyModeData where
  "mockData =
     \<lparr>document =
        \<lparr>document_id = ''a4b8b023-5d0f-47fd-9c11-de9c38808600'',
         user_id = ''db391bfe-d580-4855-b4be-19ec6d45e7cc'',
         document_title = ''Introduction to Algorithms'',
         file_name = ''Introduction_to_algorithms-6-12.pdf'',
         created_at = ''2025-07-10T23:06:34.028593''\<rparr>,
      chat_session_id = ''8bb10527-c62d-43e1-bd81-c3a44b590262'',
      toc = Some
        \<lparr>book_id = ''a4b8b023-5d0f-47fd-9c11-de9c38808600'',
         chapters =
           [\<lparr>chapter_id = ''10273a10-b1ea-4514-b6c7-d1bf2d20a856'', chapter_number = ''1'',
             title = ''Chapter 1: Foundations'',
             sections = Some
               [\<lparr>section_id = ''06671124-438a-424b-84cc-43ef360501b0'',
                 Section.title = ''1.1 Algorithms'', page = 5\<rparr>,
                \<lparr>section_id = ''b8e19ca7-0dab-49cc-832a-91a099c32031'',
                 Section.title = ''1.2 Algorithms as a technology'', page = 11\<rparr>,
                \<lparr>section_id = ''6a0fe27b-a200-4777-becb-5ec0c62b6cee'',
                 Section.title = ''2 Getting Started'', page = 16\<rparr>]\<rparr>,
            \<lparr>chapter_id = ''0ada99be-dfc6-4efa-acca-c91d67458e4e'', chapter_number = ''2'',
             title = ''Chapter 2: Sorting and Order Statistics'',
             sections = Some
               [\<lparr>section_id = ''d945fa7c-2d8d-4302-811c-05a7ab9646dc'',
                 Section.title = ''6 Heapsort'', page = 151\<rparr>,
                \<lparr>section_id = ''abcdfe9d-b9cd-4820-ae8d-5ba3a9c16cb6'',
                 Section.title = ''6.1 Heaps'', page = 151\<rparr>]\<rparr>]\<rparr>,
      last_position =
        \<lparr>page_number = 12, last_chapter_id = None, last_section_id = None,
         updated_at = ''2025-07-18T01:56:41.864035+00:00''\<rparr>\<rparr>"

definition initializeStudyMode :: "App \<Rightarrow> App" where
  "initializeStudyMode st =
     st\<lparr>studyData := Some mockData,
        currentPage := page_number (last_position mockData),
        isLoading := False\<rparr>"

text \<open>
  \<open>updatePosition\<close> returns at once without study data and otherwise logs the position;
  \<open>handlePageChange\<close> stores the page, calls it and shows a notification.
\<close>

definition updatePosition :: "App \<Rightarrow> int \<Rightarrow> string option \<Rightarrow> string option \<Rightarrow> App" where
  "updatePosition st p sectionId chapterId =
     (if studyData st = None then st
      else st\<lparr>console := console st @ [Position_updated p sectionId chapterId]\<rparr>)"

definition handlePageChange :: "App \<Rightarrow> int \<Rightarrow> string option \<Rightarrow> string option \<Rightarrow> App" where
  "handlePageChange st p sectionId chapterId =
     (let st1 = st\<lparr>currentPage := p\<rparr>;
          st2 = updatePosition st1 p sectionId chapterId
      in st2\<lparr>toasts := toasts st2 @ [Toast_success (''Navigated to page '' @ number_toString p)]\<rparr>)"

text \<open>A sequence of navigation calls, applied from left to right.\<close>

fun navigate_all :: "App \<Rightarrow> (int \<times> string option \<times> string option) list \<Rightarrow> App" where
  "navigate_all st [] = st"
| "navigate_all st ((p, sectionId, chapterId) # calls) =
     navigate_all (handlePageChange st p sectionId chapterId) calls"

text \<open>
  The clamp of the specification's navigation contract, \<open>[1, totalPages]\<close>, written from
  the specification's words for comparison with \<open>handlePageChange\<close>.
\<close>

definition spec_clamp_page :: "int \<Rightarrow> int \<Rightarrow> int" where
  "spec_clamp_page n p = max 1 (min n p)"

text \<open>
  \<open>checkMobile\<close> runs when the component mounts, on every resize of the window and
  whenever \<open>isTOCCollapsed\<close>, \<open>hasTOC\<close> or \<open>isPDFHidden\<close> changes. Its argument is
  \<open>window.innerWidth\<close>. It sets the mobile flag from the breakpoint of 1024 pixels and
  resets the width of the tool panel.
\<close>

definition checkMobile :: "App \<Rightarrow> real \<Rightarrow> App" where
  "checkMobile st innerWidth =
     (let mobile = innerWidth < 1024;
          st1 = st\<lparr>isMobile := mobile\<rparr>
      in if mobile then st1\<lparr>isTOCCollapsed := True, rightPanelWidth := 280\<rparr>
         else if isPDFHidden st then st1\<lparr>rightPanelWidth := min 800 (innerWidth - 100)\<rparr>
         else st1\<lparr>rightPanelWidth :=
                    (if hasTOC st then (if isTOCCollapsed st then 380 else 320) else 400)\<rparr>)"

text \<open>
  The drag-resize handlers. \<open>handleMouseMove\<close> receives the pointer's \<open>clientX\<close>; it
  returns without a change unless a resize is in progress, the container is mounted and the
  layout is not the mobile one.
\<close>

definition handleMouseDown :: "App \<Rightarrow> App" where
  "handleMouseDown st = st\<lparr>isResizing := True\<rparr>"

definition maxWidth :: "bool \<Rightarrow> real \<Rightarrow> real" where
  "maxWidth pdfHidden containerWidth =
     (if pdfHidden then containerWidth - 100 else containerWidth * 0.6)"

definition minWidth :: real where
  "minWidth = 280"

definition handleMouseMove :: "App \<Rightarrow> real \<Rightarrow> App" where
  "handleMouseMove st clientX =
     (case containerRef st of
        None \<Rightarrow> st
      | Some containerRect \<Rightarrow>
          if \<not> isResizing st \<or> isMobile st then st
          else
            let containerWidth = rect_width containerRect;
                mouseX = clientX - rect_left containerRect;
                newRightPanelWidth = containerWidth - mouseX - 4;
                clampedWidth =
                  max minWidth (min (maxWidth (isPDFHidden st) containerWidth) newRightPanelWidth)
            in st\<lparr>rightPanelWidth := clampedWidth\<rparr>)"

definition handleMouseUp :: "App \<Rightarrow> App" where
  "handleMouseUp st = st\<lparr>isResizing := False\<rparr>"

text \<open>
  The clamp of the specification's resize rule, \<open>clamp(x, minWidth, maxWidth)\<close>: the value
  \<open>x\<close> moved into the interval from \<open>lo\<close> to \<open>hi\<close>.
\<close>

definition spec_clamp :: "real \<Rightarrow> real \<Rightarrow> real \<Rightarrow> real" where
  "spec_clamp x lo hi = max lo (min hi x)"

section \<open>The contents navigator (\<open>components/TableOfContents.tsx\<close>)\<close>

text \<open>
  \<open>TOCItemComponent\<close> renders one chapter. \<open>shouldShowSections\<close> is
  \<open>chapter.sections && chapter.sections.length > 0 && !(chapter.sections.length === 1 &&
  chapter.sections[0].title === chapter.title)\<close>, and \<open>hasExpandableSections\<close> is the
  same value.
\<close>

definition shouldShowSections :: "Chapter \<Rightarrow> bool" where
  "shouldShowSections chapter =
     (case sections chapter of
        None \<Rightarrow> False
      | Some ss \<Rightarrow>
          length ss > 0 \<and> \<not> (length ss = 1 \<and> Section.title (ss ! 0) = Chapter.title chapter))"

definition hasExpandableSections :: "Chapter \<Rightarrow> bool" where
  "hasExpandableSections chapter = shouldShowSections chapter"

text \<open>
  \<open>chapterPage\<close> is the first section's page, or \<open>null\<close>. The component tests it by
  truthiness (\<open>if (chapterPage)\<close>, \<open>chapterPage && ...\<close>), and the number \<open>0\<close> is falsy
  as \<open>null\<close> is.
\<close>

definition chapterPage :: "Chapter \<Rightarrow> int option" where
  "chapterPage chapter =
     (case sections chapter of
        None \<Rightarrow> None
      | Some ss \<Rightarrow> if length ss > 0 then Some (page (ss ! 0)) else None)"

definition truthy_page :: "int option \<Rightarrow> bool" where
  "truthy_page p = (case p of None \<Rightarrow> False | Some n \<Rightarrow> n \<noteq> 0)"


text \<open>\<open>chapter.sections?.[0]?.section_id\<close>.\<close>

definition first_section_id :: "Chapter \<Rightarrow> string option" where
  "first_section_id chapter =
     (case sections chapter of
        None \<Rightarrow> None
      | Some ss \<Rightarrow> (case ss of [] \<Rightarrow> None | s # rest \<Rightarrow> Some (section_id s)))"

text \<open>
  A handler's result is the call of \<open>onPageSelect(page, sectionId, chapterId)\<close> that it
  makes, if it makes one.
\<close>

type_synonym page_select = "int \<times> string option \<times> string option"

definition handleChapterClick :: "Chapter \<Rightarrow> page_select option" where
  "handleChapterClick chapter =
     (case chapterPage chapter of
        None \<Rightarrow> None
      | Some p \<Rightarrow>
          if truthy_page (Some p)
          then Some (p, first_section_id chapter, Some (chapter_id chapter))
          else None)"

definition handleSectionClick :: "Chapter \<Rightarrow> Section \<Rightarrow> page_select" where
  "handleSectionClick chapter s = (page s, Some (section_id s), Some (chapter_id chapter))"

text \<open>
  What the chapter header renders: the expand arrow (the \<open>CollapsibleTrigger\<close> button) under
  \<open>hasExpandableSections\<close>, a spacer otherwise, and
  \<open>onClick={!hasExpandableSections ? handleChapterClick : undefined}\<close>.
\<close>

definition renders_expand_arrow :: "Chapter \<Rightarrow> bool" where
  "renders_expand_arrow chapter = hasExpandableSections chapter"

definition chapter_header_onClick :: "Chapter \<Rightarrow> page_select option" where
  "chapter_header_onClick chapter =
     (if \<not> hasExpandableSections chapter then handleChapterClick chapter else None)"

text \<open>\<open>const isCurrentSection = currentPage === section.page\<close>.\<close>

definition isCurrentSection :: "int \<Rightarrow> Section \<Rightarrow> bool" where
  "isCurrentSection current s = (current = page s)"

text \<open>\<open>App\<close> passes \<open>handlePageChange\<close> as \<open>onPageSelect\<close>.\<close>

definition onPageSelect :: "App \<Rightarrow> page_select option \<Rightarrow> App" where
  "onPageSelect st call =
     (case call of
        None \<Rightarrow> st
      | Some (p, sectionId, chapterId) \<Rightarrow> handlePageChange st p sectionId chapterId)"

section \<open>The tool coordinator (\<open>components/ToolPanel.tsx\<close>)\<close>

subsection \<open>Strings\<close>

text \<open>
  \<open>String.prototype.trim\<close> removes white space and line terminators from both ends; among
  the one-byte characters these are TAB, LF, VT, FF, CR, SPACE and NBSP.
  \<open>string_includes\<close> is the substring test of \<open>String.prototype.includes\<close>, \<open>toLowerCase\<close> is given on the ASCII letters.
\<close>

definition js_whitespace :: "char \<Rightarrow> bool" where
  "js_whitespace c = ((of_char c :: nat) \<in> {9, 10, 11, 12, 13, 32, 160})"

definition trim :: "string \<Rightarrow> string" where
  "trim s = rev (dropWhile js_whitespace (rev (dropWhile js_whitespace s)))"

fun string_includes :: "string \<Rightarrow> string \<Rightarrow> bool" where
  "string_includes [] sub = (sub = [])"
| "string_includes (c # cs) sub = (take (length sub) (c # cs) = sub \<or> string_includes cs sub)"

definition lower_char :: "char \<Rightarrow> char" where
  "lower_char c =
     (if 65 \<le> (of_char c :: nat) \<and> (of_char c :: nat) \<le> 90 then char_of (of_char c + 32 :: nat)
      else c)"

definition toLowerCase :: "string \<Rightarrow> string" where
  "toLowerCase s = map lower_char s"

subsection \<open>Messages and the panel's state\<close>

datatype Sender = User | Ai

record HighlightedText =
  hl_text :: string
  hl_context :: string

text \<open>
  The content of a tool artifact is an array: empty for a message restored from the
  history, or one of the literal arrays of the mocked services, which are named and not written
  out: the five of \<open>sendChatMessage\<close> (of 2, 2, 5, 5 and 1 elements) and the one of
  \<open>loadToolResponse\<close> (of 3 elements).
\<close>

datatype mock_array =
  Game_array | Diagram_array | Flashcard_array | Quiz_array | Fallback_array | Loaded_array

datatype tool_content = Strings "string list" | Mock_response mock_array

fun content_length :: "tool_content \<Rightarrow> nat" where
  "content_length (Strings xs) = length xs"
| "content_length (Mock_response Game_array) = 2"
| "content_length (Mock_response Diagram_array) = 2"
| "content_length (Mock_response Flashcard_array) = 5"
| "content_length (Mock_response Quiz_array) = 5"
| "content_length (Mock_response Fallback_array) = 1"
| "content_length (Mock_response Loaded_array) = 3"

record ToolResponseRef =
  ref_type :: "string option"
  ref_content :: tool_content
  toolResponseId :: "string option"

record Message =
  message_id :: string
  content :: string
  sender :: Sender
  timestamp :: int
  model :: "string option"
  toolUsed :: "string option"
  toolResponse :: "ToolResponseRef option"
  highlightedText :: "HighlightedText option"

text \<open>The properties that \<open>App\<close> passes and the handlers read.\<close>

record ToolPanelProps =
  chatSessionId :: string
  documentId :: string
  currentPage :: int
  tocData :: "TOC option"

datatype recorder_state = Inactive | Recording

text \<open>
  The state of \<open>ToolPanel\<close>: its \<open>useState\<close> hooks and its two refs, the notifications
  shown, and the interval timers that are running (by their ids).
\<close>

record ToolPanel =
  selectedModel :: string
  messages :: "Message list"
  inputValue :: string
  isLoading :: bool
  contextText :: "HighlightedText option"
  isRecording :: bool
  recordingTime :: nat
  mediaRecorderRef :: "recorder_state option"
  recordingTimerRef :: "nat option"
  activeOverlay :: "ToolResponseRef option"
  toasts :: "toast list"
  intervals :: "nat list"

definition ToolPanel_initial :: ToolPanel where
  "ToolPanel_initial =
     \<lparr>selectedModel = ''d50a33ce-2462-4a5a-9aa7-efc2d1749745'', messages = [], inputValue = [],
      isLoading = False, contextText = None, isRecording = False, recordingTime = 0,
      mediaRecorderRef = None, recordingTimerRef = None, activeOverlay = None,
      toasts = [], intervals = []\<rparr>"

subsection \<open>The current section\<close>

record CurrentContext =
  chapterName :: string
  sectionName :: string
  chapterId :: "string option"
  sectionId :: "string option"

definition no_context :: CurrentContext where
  "no_context = \<lparr>chapterName = [], sectionName = [], chapterId = None, sectionId = None\<rparr>"

text \<open>
  \<open>getCurrentContext\<close> scans the chapters in order and, in each chapter that has sections,
  the sections in order; it returns at the first section with \<open>section.page === currentPage\<close>.
\<close>

fun scan_sections :: "Chapter \<Rightarrow> int \<Rightarrow> Section list \<Rightarrow> CurrentContext option" where
  "scan_sections chapter current [] = None"
| "scan_sections chapter current (s # ss) =
     (if page s = current
      then Some \<lparr>chapterName = Chapter.title chapter, sectionName = Section.title s,
                 chapterId = Some (chapter_id chapter), sectionId = Some (section_id s)\<rparr>
      else scan_sections chapter current ss)"

fun scan_chapters :: "int \<Rightarrow> Chapter list \<Rightarrow> CurrentContext option" where
  "scan_chapters current [] = None"
| "scan_chapters current (chapter # cs) =
     (case sections chapter of
        None \<Rightarrow> scan_chapters current cs
      | Some ss \<Rightarrow>
          (case scan_sections chapter current ss of
             Some found \<Rightarrow> Some found
           | None \<Rightarrow> scan_chapters current cs))"

definition getCurrentContext :: "ToolPanelProps \<Rightarrow> CurrentContext" where
  "getCurrentContext props =
     (case tocData props of
        None \<Rightarrow> no_context
      | Some t \<Rightarrow>
          (case scan_chapters (ToolPanelProps.currentPage props) (chapters t) of
             Some found \<Rightarrow> found
           | None \<Rightarrow> no_context))"

text \<open>
  \<open>App\<close> renders the panel with \<open>currentPage={currentPage}\<close> and
  \<open>tocData={studyData.toc}\<close>.
\<close>

definition ToolPanel_props :: "App \<Rightarrow> StudyModeData \<Rightarrow> ToolPanelProps" where
  "ToolPanel_props st d =
     \<lparr>chatSessionId = chat_session_id d, documentId = document_id (document d),
      currentPage = App.currentPage st, tocData = toc d\<rparr>"

subsection \<open>Voice capture\<close>

text \<open>
  \<open>startRecording\<close> depends on the browser. The environment decides how far the body of
  its \<open>try\<close> block gets: \<open>navigator.mediaDevices.getUserMedia\<close> may be missing, the promise
  of \<open>getUserMedia\<close> may be rejected (permission denied), \<open>new MediaRecorder(stream)\<close> or
  \<open>mediaRecorder.start()\<close> may throw, or the capture starts and \<open>window.setInterval\<close>
  returns the id of the new timer.
\<close>

datatype capture_env =
    Unsupported
  | GetUserMedia_rejected
  | MediaRecorder_throws
  | Start_throws
  | Capture_started nat

definition startRecording :: "ToolPanel \<Rightarrow> capture_env \<Rightarrow> ToolPanel" where
  "startRecording st env =
     (case env of
        Unsupported \<Rightarrow>
          st\<lparr>toasts := toasts st @ [Toast_error ''Audio recording not supported.'']\<rparr>
      | GetUserMedia_rejected \<Rightarrow>
          st\<lparr>toasts := toasts st @ [Toast_error ''Failed to start recording.'']\<rparr>
      | MediaRecorder_throws \<Rightarrow>
          st\<lparr>toasts := toasts st @ [Toast_error ''Failed to start recording.'']\<rparr>
      | Start_throws \<Rightarrow>
          st\<lparr>mediaRecorderRef := Some Inactive,
             toasts := toasts st @ [Toast_error ''Failed to start recording.'']\<rparr>
      | Capture_started timer \<Rightarrow>
          st\<lparr>mediaRecorderRef := Some Recording,
             isRecording := True,
             recordingTime := 0,
             recordingTimerRef := Some timer,
             intervals := timer # intervals st,
             toasts := toasts st @ [Toast_success ''Recording started...'']\<rparr>)"

text \<open>The callback of the interval timer, and \<open>clearInterval\<close>.\<close>

definition recordingTimer_tick :: "ToolPanel \<Rightarrow> ToolPanel" where
  "recordingTimer_tick st = st\<lparr>recordingTime := recordingTime st + 1\<rparr>"

definition clearInterval :: "nat \<Rightarrow> nat list \<Rightarrow> nat list" where
  "clearInterval timer running = removeAll timer running"

text \<open>
  \<open>stopRecording\<close>: \<open>MediaRecorder.stop()\<close> throws on an inactive recorder, and the
  \<open>catch\<close> block then resets the flag and the timer without a notification.
\<close>

definition stopRecording :: "ToolPanel \<Rightarrow> ToolPanel" where
  "stopRecording st =
     (case mediaRecorderRef st of
        None \<Rightarrow> st
      | Some recorder \<Rightarrow>
          if \<not> isRecording st then st
          else
            (case recorder of
               Recording \<Rightarrow>
                 (let st1 = st\<lparr>mediaRecorderRef := Some Inactive, isRecording := False\<rparr>;
                      st2 = (case recordingTimerRef st1 of
                               None \<Rightarrow> st1
                             | Some timer \<Rightarrow>
                                 st1\<lparr>intervals := clearInterval timer (intervals st1),
                                     recordingTimerRef := None\<rparr>)
                  in st2\<lparr>toasts := toasts st2 @ [Toast_info ''Processing audio...'']\<rparr>)
             | Inactive \<Rightarrow>
                 (let st1 = st\<lparr>isRecording := False\<rparr>
                  in (case recordingTimerRef st1 of
                        None \<Rightarrow> st1
                      | Some timer \<Rightarrow>
                          st1\<lparr>intervals := clearInterval timer (intervals st1),
                              recordingTimerRef := None\<rparr>))))"

definition toggleRecording :: "ToolPanel \<Rightarrow> capture_env \<Rightarrow> ToolPanel" where
  "toggleRecording st env = (if isRecording st then stopRecording st else startRecording st env)"

text \<open>
  The timeout that \<open>mediaRecorder.onstop\<close> sets: one second later the transcribed text is
  appended to the compose box, after a line break when the box is not empty.
\<close>

definition transcription_done :: "ToolPanel \<Rightarrow> ToolPanel" where
  "transcription_done st =
     st\<lparr>inputValue :=
          inputValue st @ (if inputValue st \<noteq> [] then [CHR 0x0A] else [])
            @ ''Can you explain the key concepts in this section?'',
        toasts := toasts st @ [Toast_success ''Audio transcribed!'']\<rparr>"

subsection \<open>Sending a message\<close>

text \<open>
  The response of \<open>sendChatMessage\<close>, without its \<open>created_at\<close> time stamp, which no
  handler reads. \<open>now\<close> is the value of \<open>Date.now()\<close>.
\<close>

record HighlightSnapshot =
  snapshot_text :: string
  snapshot_context :: string
  snapshot_page :: int
  snapshot_chapter_id :: "string option"
  snapshot_section_id :: "string option"

record ChatResponse =
  response_session_id :: string
  role :: string
  response_content :: string
  model_id :: string
  tool_type :: "string option"
  tool_response_id :: "string option"
  tool_response :: "tool_content option"
  highlighted_text :: "HighlightSnapshot option"

definition mock_tool_type :: "string \<Rightarrow> string" where
  "mock_tool_type c =
     (if string_includes c ''game'' then ''game''
      else if string_includes c ''diagram'' then ''diagram''
      else if string_includes c ''flashcard'' then ''flashcard''
      else ''quiz'')"

definition mock_tool_response :: "string \<Rightarrow> tool_content" where
  "mock_tool_response c =
     (if string_includes c ''game'' then Mock_response Game_array
      else if string_includes c ''diagram'' then Mock_response Diagram_array
      else if string_includes c ''flashcard'' then Mock_response Flashcard_array
      else if string_includes c ''quiz'' then Mock_response Quiz_array
      else Mock_response Fallback_array)"

definition mock_content :: "bool \<Rightarrow> HighlightedText option \<Rightarrow> string" where
  \<open>mock_content autoGenerated highlighted =
     (case highlighted of
        Some h \<Rightarrow>
          ''Based on the selected text "'' @ hl_text h @ ''", this refers to ''
            @ toLowerCase (hl_text h) @ ''. '' @ hl_text h
            @ '' is a fundamental concept that plays a crucial role in algorithm analysis. It represents the upper bound of an algorithm's time complexity, helping us understand the worst-case scenario for performance.''
      | None \<Rightarrow>
          if autoGenerated
          then ''I've analyzed the selected content and generated the requested tool. You can interact with the results using the tool button below.''
          else ''This page discusses important concepts. The content covers fundamental principles that are essential for understanding the subject matter.'')\<close>

text \<open>
  The body of \<open>sendChatMessage\<close> builds an object literal and returns it; nothing in its
  \<open>try\<close> block throws, so the promise is always fulfilled. The result is a sum all the
  same, since \<open>handleSendMessage\<close> has a branch for the rejected promise.
\<close>

definition sendChatMessage ::
  "ToolPanelProps \<Rightarrow> ToolPanel \<Rightarrow> int \<Rightarrow> string \<Rightarrow> bool \<Rightarrow> HighlightedText option
     \<Rightarrow> string + ChatResponse" where
  "sendChatMessage props st now c autoGenerated highlighted =
     (let ctx = getCurrentContext props
      in Inr \<lparr>response_session_id = chatSessionId props,
              role = ''assistant'',
              response_content = mock_content autoGenerated highlighted,
              model_id = selectedModel st,
              tool_type = (if autoGenerated then Some (mock_tool_type c) else None),
              tool_response_id =
                (if autoGenerated then Some (''mock-response-'' @ number_toString now) else None),
              tool_response = (if autoGenerated then Some (mock_tool_response c) else None),
              highlighted_text =
                (case highlighted of
                   Some h \<Rightarrow>
                     Some \<lparr>snapshot_text = hl_text h, snapshot_context = hl_context h,
                           snapshot_page = ToolPanelProps.currentPage props,
                           snapshot_chapter_id = chapterId ctx,
                           snapshot_section_id = sectionId ctx\<rparr>
                 | None \<Rightarrow> None)\<rparr>)"

text \<open>
  \<open>handleSendMessage\<close> is an \<open>async\<close> function with one \<open>await\<close>. The model has a
  function for the part that runs at the call, up to the \<open>await\<close>, and one for the part
  that runs when the promise is settled; other handlers may run in between. Every handler
  reads the state as it is when the handler runs: the component is taken to have rendered
  between two events, so that no handler works on the values of an earlier render.

  The first part returns the state and, unless the call returned early, the request that is
  now outstanding: the model id of the closure and the settled value of the promise.
  \<open>messageContent || inputValue\<close> takes the compose box also for an empty argument.
\<close>

record PendingSend =
  pending_model :: string
  pending_result :: "string + ChatResponse"

definition send_content :: "ToolPanel \<Rightarrow> string option \<Rightarrow> string" where
  "send_content st messageContent =
     (case messageContent of
        None \<Rightarrow> inputValue st
      | Some m \<Rightarrow> if m \<noteq> [] then m else inputValue st)"

definition handleSendMessage_call ::
  "ToolPanelProps \<Rightarrow> ToolPanel \<Rightarrow> int \<Rightarrow> string option \<Rightarrow> bool \<Rightarrow> HighlightedText option
     \<Rightarrow> ToolPanel \<times> PendingSend option" where
  "handleSendMessage_call props st now messageContent autoGenerated highlightedTextOverride =
     (let c = send_content st messageContent
      in if trim c = [] \<or> isLoading st then (st, None)
         else
           let currentContextText =
                 (case highlightedTextOverride of Some h \<Rightarrow> Some h | None \<Rightarrow> contextText st);
               userMessage =
                 \<lparr>message_id = number_toString now, content = c, sender = User,
                  timestamp = now, model = None, toolUsed = None, toolResponse = None,
                  highlightedText = currentContextText\<rparr>;
               st1 = st\<lparr>messages := messages st @ [userMessage]\<rparr>;
               st2 = (if \<not> autoGenerated then st1\<lparr>inputValue := []\<rparr> else st1);
               st3 = (if highlightedTextOverride = None then st2\<lparr>contextText := None\<rparr> else st2);
               st4 = st3\<lparr>isLoading := True\<rparr>
           in (st4,
               Some \<lparr>pending_model = selectedModel st,
                     pending_result =
                       sendChatMessage props st now c autoGenerated currentContextText\<rparr>))"

text \<open>
  The reference to the tool artifact that the assistant message stores:
  \<open>response.tool_response ? {type, content, toolResponseId: response.tool_response_id ||
  undefined} : undefined\<close>. An array is truthy, an empty string is not.
\<close>

definition or_undefined :: "string option \<Rightarrow> string option" where
  "or_undefined x = (case x of None \<Rightarrow> None | Some v \<Rightarrow> if v = [] then None else Some v)"

definition response_tool_ref :: "ChatResponse \<Rightarrow> ToolResponseRef option" where
  "response_tool_ref response =
     (case tool_response response of
        None \<Rightarrow> None
      | Some payload \<Rightarrow>
          Some \<lparr>ref_type = tool_type response, ref_content = payload,
                toolResponseId = or_undefined (tool_response_id response)\<rparr>)"

definition handleSendMessage_settled :: "ToolPanel \<Rightarrow> int \<Rightarrow> PendingSend \<Rightarrow> ToolPanel" where
  "handleSendMessage_settled st now pending =
     (case pending_result pending of
        Inr response \<Rightarrow>
          (let aiMessage =
                 \<lparr>message_id = number_toString (now + 1), content = response_content response,
                  sender = Ai, timestamp = now, model = Some (pending_model pending),
                  toolUsed = or_undefined (tool_type response),
                  toolResponse = response_tool_ref response,
                  highlightedText = None\<rparr>
           in st\<lparr>messages := messages st @ [aiMessage], isLoading := False\<rparr>)
      | Inl err \<Rightarrow>
          st\<lparr>toasts := toasts st @ [Toast_error ''Failed to send message''], isLoading := False\<rparr>)"

text \<open>
  The whole of \<open>handleSendMessage\<close> when nothing else runs between the call and the
  settling of the promise; \<open>later\<close> is the clock at that moment.
\<close>

definition handleSendMessage ::
  "ToolPanelProps \<Rightarrow> ToolPanel \<Rightarrow> int \<Rightarrow> int \<Rightarrow> string option \<Rightarrow> bool \<Rightarrow> HighlightedText option
     \<Rightarrow> ToolPanel" where
  "handleSendMessage props st now later messageContent autoGenerated highlightedTextOverride =
     (case handleSendMessage_call props st now messageContent autoGenerated highlightedTextOverride of
        (st1, None) \<Rightarrow> st1
      | (st1, Some pending) \<Rightarrow> handleSendMessage_settled st1 later pending)"

subsection \<open>The entry points for highlighted text, and the tool buttons\<close>

definition getToolDisplayName :: "string \<Rightarrow> string" where
  "getToolDisplayName toolType =
     (let t = toLowerCase toolType
      in if string_includes t ''flashcard'' then ''Flashcards''
         else if string_includes t ''quiz'' then ''Quiz''
         else if string_includes t ''diagram'' then ''Diagrams''
         else if string_includes t ''game'' then ''Games''
         else toolType)"

definition handleHighlightedText :: "ToolPanel \<Rightarrow> string \<Rightarrow> string \<Rightarrow> ToolPanel" where
  \<open>handleHighlightedText st selected ctx =
     st\<lparr>contextText := Some \<lparr>hl_text = selected, hl_context = ctx\<rparr>,
        inputValue := ''Please explain: "'' @ selected @ ''"''\<rparr>\<close>

definition handleDirectToolGeneration ::
  "ToolPanelProps \<Rightarrow> ToolPanel \<Rightarrow> int \<Rightarrow> string \<Rightarrow> string \<Rightarrow> string
     \<Rightarrow> ToolPanel \<times> PendingSend option" where
  \<open>handleDirectToolGeneration props st now selected ctx toolType =
     (let toolName = getToolDisplayName toolType;
          toolMessage =
            ''Generate '' @ toLowerCase toolName @ '' from the selected text: "'' @ selected @ ''"'';
          (st1, pending) =
            handleSendMessage_call props st now (Some toolMessage) True
              (Some \<lparr>hl_text = selected, hl_context = ctx\<rparr>)
      in (st1\<lparr>toasts := toasts st1
                  @ [Toast_info (''Generating '' @ toLowerCase toolName @ '' from selected text...'')]\<rparr>,
          pending))\<close>

definition handleToolUse ::
  "ToolPanelProps \<Rightarrow> ToolPanel \<Rightarrow> int \<Rightarrow> string \<Rightarrow> ToolPanel \<times> PendingSend option" where
  "handleToolUse props st now tool_name =
     (let toolMessage =
            ''Generate a '' @ toLowerCase tool_name @ '' based on the current content on page ''
              @ number_toString (ToolPanelProps.currentPage props);
          (st1, pending) = handleSendMessage_call props st now (Some toolMessage) True None
      in (st1\<lparr>toasts := toasts st1 @ [Toast_info (''Generating '' @ toLowerCase tool_name @ ''...'')]\<rparr>,
          pending))"

definition handleClearContext :: "ToolPanel \<Rightarrow> ToolPanel" where
  "handleClearContext st = st\<lparr>contextText := None, inputValue := []\<rparr>"

subsection \<open>The tool overlay\<close>

text \<open>
  The overlay is shown while \<open>activeOverlay\<close> is not \<open>null\<close>. It is set by
  \<open>handleOpenToolMessage\<close> and by \<open>loadToolResponse\<close>, both reached from the "open tool"
  button of a message (\<open>handleOpenTool\<close> of \<open>MessageComponent\<close>), and reset by the overlay's
  close and minimize buttons.
\<close>

definition handleOpenToolMessage :: "ToolPanel \<Rightarrow> ToolResponseRef \<Rightarrow> ToolPanel" where
  "handleOpenToolMessage st r = st\<lparr>activeOverlay := Some r\<rparr>"

definition backfill :: "string \<Rightarrow> Message \<Rightarrow> Message" where
  "backfill wanted msg =
     (case toolResponse msg of
        None \<Rightarrow> msg
      | Some r \<Rightarrow>
          if toolResponseId r = Some wanted
          then msg\<lparr>toolResponse := Some (r\<lparr>ref_content := Mock_response Loaded_array\<rparr>)\<rparr>
          else msg)"

definition loadToolResponse :: "ToolPanel \<Rightarrow> string \<Rightarrow> string option \<Rightarrow> ToolPanel" where
  "loadToolResponse st wanted toolType =
     st\<lparr>messages := map (backfill wanted) (messages st),
        activeOverlay :=
          Some \<lparr>ref_type = toolType, ref_content = Mock_response Loaded_array,
                toolResponseId = Some wanted\<rparr>\<rparr>"

definition handleOpenTool :: "ToolPanel \<Rightarrow> Message \<Rightarrow> ToolPanel" where
  "handleOpenTool st msg =
     (case toolResponse msg of
        None \<Rightarrow> st
      | Some r \<Rightarrow>
          if content_length (ref_content r) > 0 then handleOpenToolMessage st r
          else
            (case toolResponseId r of
               None \<Rightarrow> st
             | Some wanted \<Rightarrow>
                 if wanted \<noteq> [] then loadToolResponse st wanted (ref_type r) else st))"

definition overlay_onClose :: "ToolPanel \<Rightarrow> ToolPanel" where
  "overlay_onClose st = st\<lparr>activeOverlay := None\<rparr>"

section \<open>Reference definitions and test data\<close>

text \<open>
  The specification's notion of a directly clickable chapter, from its words: a chapter with
  no sections, or with exactly one section whose title is the chapter's own.
\<close>

definition spec_directly_clickable :: "Chapter \<Rightarrow> bool" where
  "spec_directly_clickable chapter =
     (case sections chapter of
        None \<Rightarrow> True
      | Some [] \<Rightarrow> True
      | Some [s] \<Rightarrow> Section.title s = Chapter.title chapter
      | Some (s # s' # rest) \<Rightarrow> False)"

text \<open>
  The table of contents of the specification's scenario: chapter "Ch1" with the sections
  "1.1" on page 5 and "1.2" on page 11.
\<close>

definition scenario_toc :: TOC where
  "scenario_toc =
     \<lparr>book_id = ''book'',
      chapters =
        [\<lparr>chapter_id = ''Ch1-id'', chapter_number = ''1'', title = ''Ch1'',
          sections = Some
            [\<lparr>section_id = ''1.1-id'', Section.title = ''1.1'', page = 5\<rparr>,
             \<lparr>section_id = ''1.2-id'', Section.title = ''1.2'', page = 11\<rparr>]\<rparr>]\<rparr>"

definition scenario_data :: StudyModeData where
  "scenario_data = mockData\<lparr>toc := Some scenario_toc\<rparr>"

definition scenario_App :: App where
  "scenario_App = (initializeStudyMode App_initial)\<lparr>studyData := Some scenario_data\<rparr>"

text \<open>A chapter without sections, as a front-matter entry would be.\<close>

definition preface_chapter :: Chapter where
  "preface_chapter =
     \<lparr>chapter_id = ''c0'', chapter_number = ''0'', title = ''Preface'', sections = None\<rparr>"

text \<open>A chapter whose only section repeats its title.\<close>

definition single_section_chapter :: Chapter where
  "single_section_chapter =
     \<lparr>chapter_id = ''c3'', chapter_number = ''3'', title = ''Graphs'',
      sections = Some [\<lparr>section_id = ''s3'', Section.title = ''Graphs'', page = 42\<rparr>]\<rparr>"



text \<open>
  The mocked study data in a window of 1200 pixels, with the container mounted across the
  window and the resize handle pressed.
\<close>

definition dragging_App :: App where
  "dragging_App =
     (handleMouseDown (checkMobile (initializeStudyMode App_initial) 1200))
       \<lparr>containerRef := Some \<lparr>rect_left = 0, rect_width = 1200\<rparr>\<rparr>"

text \<open>The outcomes of the environment in which \<open>startRecording\<close> does not start a capture.\<close>

definition capture_failed :: "capture_env \<Rightarrow> bool" where
  "capture_failed env = (case env of Capture_started timer \<Rightarrow> False | _ \<Rightarrow> True)"

text \<open>The properties that the panel receives for the mocked study data.\<close>

definition mock_props :: ToolPanelProps where
  "mock_props = ToolPanel_props (initializeStudyMode App_initial) mockData"

text \<open>
  The response of the mocked service to the "Quiz" tool button pressed at time 1000, and the
  outstanding request that holds it.
\<close>

definition quiz_response :: ChatResponse where
  "quiz_response =
     \<lparr>response_session_id = ''8bb10527-c62d-43e1-bd81-c3a44b590262'',
      role = ''assistant'',
      response_content = mock_content True None,
      model_id = ''d50a33ce-2462-4a5a-9aa7-efc2d1749745'',
      tool_type = Some ''quiz'',
      tool_response_id = Some ''mock-response-1000'',
      tool_response = Some (Mock_response Quiz_array),
      highlighted_text = None\<rparr>"

definition quiz_pending :: PendingSend where
  "quiz_pending =
     \<lparr>pending_model = ''d50a33ce-2462-4a5a-9aa7-efc2d1749745'',
      pending_result = Inr quiz_response\<rparr>"

section \<open>Navigation\<close>

lemma updatePosition_currentPage:
  "App.currentPage (updatePosition st p s c) = App.currentPage st"
  by (simp add: updatePosition_def)

lemma updatePosition_studyData:
  "studyData (updatePosition st p s c) = studyData st"
  by (simp add: updatePosition_def)

lemma handlePageChange_currentPage:
  "App.currentPage (handlePageChange st p s c) = p"
  by (simp add: handlePageChange_def Let_def updatePosition_currentPage)

lemma handlePageChange_studyData:
  "studyData (handlePageChange st p s c) = studyData st"
  by (simp add: handlePageChange_def Let_def updatePosition_studyData)

lemma totalPages_cong: "studyData st' = studyData st \<Longrightarrow> totalPages st' = totalPages st"
  by (simp add: totalPages_def studyData_toc_def)

lemma navigate_all_studyData: "studyData (navigate_all st calls) = studyData st"
  by (induction st calls rule: navigate_all.induct) (simp_all add: handlePageChange_studyData)

lemma navigate_all_snoc:
  "navigate_all st (calls @ [(p, s, c)]) = handlePageChange (navigate_all st calls) p s c"
  by (induction st calls rule: navigate_all.induct) simp_all

lemma totalPages_loaded: "totalPages (initializeStudyMode App_initial) = Finite 151"
  by (simp add: totalPages_def studyData_toc_def initializeStudyMode_def mockData_def
      flatMap_def chapter_pages_def)

text \<open>
  Claim C1, as the code has it. \<open>handlePageChange\<close> is total: no call is rejected. The page
  afterwards is the page of the call, whatever it is; the handler does not clamp it. After
  any sequence of calls the page is that of the last call, the page count (which depends on
  the study data only) is unchanged, and when the last page lies in \<open>[1, totalPages]\<close> it is
  also the value that clamping into that range would give.
\<close>

theorem handlePageChange_sets_page:
  "App.currentPage (handlePageChange st p sid cid) = p
   \<and> App.currentPage (navigate_all st (calls @ [(p, sid, cid)])) = p
   \<and> totalPages (navigate_all st (calls @ [(p, sid, cid)])) = totalPages st
   \<and> (totalPages st = Finite n \<and> 1 \<le> p \<and> p \<le> n \<longrightarrow>
        App.currentPage (navigate_all st (calls @ [(p, sid, cid)])) = spec_clamp_page n p)"
proof -
  have "studyData (navigate_all st (calls @ [(p, sid, cid)])) = studyData st"
    by (rule navigate_all_studyData)
  then have "totalPages (navigate_all st (calls @ [(p, sid, cid)])) = totalPages st"
    by (rule totalPages_cong)
  then show ?thesis
    by (simp add: navigate_all_snoc handlePageChange_currentPage spec_clamp_page_def)
qed

text \<open>
  With the mocked study data (151 pages): navigating to page 5 and then to page 11 leaves
  the reader on page 11.
\<close>

theorem handlePageChange_sets_page_witness:
  "totalPages (initializeStudyMode App_initial) = Finite 151 \<and> (1::int) \<le> 11 \<and> (11::int) \<le> 151
   \<and> App.currentPage (navigate_all (initializeStudyMode App_initial)
         ([(5, None, None)] @ [(11, Some ''b8e19ca7-0dab-49cc-832a-91a099c32031'', None)]))
       = spec_clamp_page 151 11"
  using handlePageChange_sets_page [of "initializeStudyMode App_initial" 11
      "Some ''b8e19ca7-0dab-49cc-832a-91a099c32031''" None "[(5, None, None)]" 151]
    totalPages_loaded
  by simp

text \<open>
  Claim C1 as stated fails outside the range: with 151 pages, a call with page 500 leaves
  the page at 500 and a call with page 0 leaves it at 0, where clamping would give 151 and 1.
\<close>

theorem handlePageChange_no_clamp_counterexample:
  "totalPages (initializeStudyMode App_initial) = Finite 151
   \<and> App.currentPage (handlePageChange (initializeStudyMode App_initial) 500 None None)
       \<noteq> spec_clamp_page 151 500
   \<and> App.currentPage (handlePageChange (initializeStudyMode App_initial) 0 None None)
       \<noteq> spec_clamp_page 151 0"
  by (simp add: totalPages_loaded handlePageChange_currentPage spec_clamp_page_def)

section \<open>Layout\<close>

lemma handleMouseMove_dragging:
  assumes "isResizing st" and "\<not> isMobile st" and "containerRef st = Some r"
  shows "rightPanelWidth (handleMouseMove st clientX) =
     max 280 (min (maxWidth (isPDFHidden st) (rect_width r))
                  (rect_width r - (clientX - rect_left r) - 4))"
  using assms by (simp add: handleMouseMove_def Let_def minWidth_def)

lemma checkMobile_isMobile: "isMobile (checkMobile st innerWidth) = (innerWidth < 1024)"
  by (simp add: checkMobile_def Let_def)

lemma handleMouseDown_isMobile: "isMobile (handleMouseDown st) = isMobile st"
  by (simp add: handleMouseDown_def)

text \<open>
  Claim C3. During a drag-resize (a resize in progress, the container mounted, not the
  mobile layout) every pointer position sets the tool-panel width to the clamp of
  \<open>containerWidth - pointerX - 4\<close> between 280 and \<open>maxWidth\<close>, where \<open>maxWidth\<close> is 60% of
  the container width while the document is visible and the container width less 100 while
  it is hidden. The width is never below 280.

  It never exceeds \<open>maxWidth\<close> in a drag that can happen. The resize handle exists and
  \<open>handleMouseMove\<close> acts only outside the mobile layout, and \<open>checkMobile\<close> keeps the
  mobile flag equal to \<open>window.innerWidth < 1024\<close>; the container spans the window, so the
  flag agrees with the container's width and the container is at least 1024 pixels wide, for
  which \<open>maxWidth\<close> is above 280. (For the function taken alone, the lower bound is applied
  last: were \<open>maxWidth\<close> below 280, the width would be 280.)
\<close>

theorem handleMouseMove_width:
  assumes "isResizing st" and "\<not> isMobile st" and "containerRef st = Some r"
  shows "rightPanelWidth (handleMouseMove st clientX) =
           spec_clamp (rect_width r - (clientX - rect_left r) - 4) 280
             (maxWidth (isPDFHidden st) (rect_width r))
         \<and> maxWidth (isPDFHidden st) (rect_width r) =
             (if isPDFHidden st then rect_width r - 100 else rect_width r * 6 / 10)
         \<and> 280 \<le> rightPanelWidth (handleMouseMove st clientX)
         \<and> (280 \<le> maxWidth (isPDFHidden st) (rect_width r) \<longrightarrow>
              rightPanelWidth (handleMouseMove st clientX)
                \<le> maxWidth (isPDFHidden st) (rect_width r))
         \<and> (1024 \<le> rect_width r \<longrightarrow>
              rightPanelWidth (handleMouseMove st clientX)
                \<le> maxWidth (isPDFHidden st) (rect_width r))
         \<and> (isMobile st = (rect_width r < 1024) \<longrightarrow>
              rightPanelWidth (handleMouseMove st clientX)
                \<le> maxWidth (isPDFHidden st) (rect_width r))
         \<and> (maxWidth (isPDFHidden st) (rect_width r) < 280 \<longrightarrow>
              rightPanelWidth (handleMouseMove st clientX) = 280)"
proof -
  let ?m = "maxWidth (isPDFHidden st) (rect_width r)"
  let ?x = "rect_width r - (clientX - rect_left r) - 4"
  have w: "rightPanelWidth (handleMouseMove st clientX) = max 280 (min ?m ?x)"
    using assms by (rule handleMouseMove_dragging)
  have m: "?m = (if isPDFHidden st then rect_width r - 100 else rect_width r * 6 / 10)"
    by (simp add: maxWidth_def)
  have wide: "1024 \<le> rect_width r \<longrightarrow> 280 \<le> ?m"
    by (simp add: maxWidth_def)
  have flag: "isMobile st = (rect_width r < 1024) \<longrightarrow> 1024 \<le> rect_width r"
    using assms(2) by auto
  show ?thesis
    using w m wide flag by (simp add: spec_clamp_def)
qed

text \<open>
  A window and container of 1200 pixels with the document visible: \<open>checkMobile\<close> leaves
  the layout non-mobile, the pointer at 100 asks for 1096 pixels and the panel gets
  \<open>maxWidth\<close>, 720.
\<close>

theorem handleMouseMove_width_witness:
  "isResizing dragging_App \<and> \<not> isMobile dragging_App
   \<and> containerRef dragging_App = Some \<lparr>rect_left = 0, rect_width = 1200\<rparr>
   \<and> isMobile dragging_App = (rect_width \<lparr>rect_left = 0, rect_width = 1200\<rparr> < 1024)
   \<and> rightPanelWidth (handleMouseMove dragging_App 100) = 720
   \<and> maxWidth (isPDFHidden dragging_App) 1200 = 720
   \<and> rightPanelWidth (handleMouseMove dragging_App 100)
       \<le> maxWidth (isPDFHidden dragging_App) 1200"
proof -
  let ?r = "\<lparr>rect_left = 0, rect_width = 1200\<rparr>"
  have h: "isResizing dragging_App" "\<not> isMobile dragging_App"
    "containerRef dragging_App = Some ?r"
    by (simp_all add: dragging_App_def handleMouseDown_def checkMobile_isMobile)
  have f: "isMobile dragging_App = (rect_width ?r < 1024)"
    using h(2) by simp
  have v: "rect_width ?r = 1200" "rect_left ?r = 0"
    by simp_all
  have p: "\<not> isPDFHidden dragging_App"
    by (simp add: dragging_App_def handleMouseDown_def checkMobile_def Let_def
        initializeStudyMode_def App_initial_def)
  have c: "spec_clamp (1200 - (100 - 0) - 4) 280 (maxWidth False 1200) = 720"
    "maxWidth False 1200 = 720"
    by (simp_all add: spec_clamp_def maxWidth_def)
  from handleMouseMove_width [OF h, of 100] f
  have "rightPanelWidth (handleMouseMove dragging_App 100)
          = spec_clamp (rect_width ?r - (100 - rect_left ?r) - 4) 280
              (maxWidth (isPDFHidden dragging_App) (rect_width ?r))
        \<and> rightPanelWidth (handleMouseMove dragging_App 100)
            \<le> maxWidth (isPDFHidden dragging_App) (rect_width ?r)"
    by blast
  with h f p c show ?thesis
    unfolding v by simp
qed

text \<open>
  Claim C4, as the code has it. The width of the contents pane is 0 when the study data has
  no table of contents, when the table of contents has no chapter, and when the document is
  hidden, whatever the collapsed flag is; with a table of contents of at least one chapter
  and the document visible it is 48 when collapsed and 240 when not.
\<close>

theorem tocWidth_values:
  "((studyData_toc st = None \<or> isPDFHidden st) \<longrightarrow> tocWidth st = 0)
   \<and> (\<forall>t. studyData_toc st = Some t \<and> chapters t = [] \<longrightarrow> tocWidth st = 0)
   \<and> (\<forall>t. studyData_toc st = Some t \<and> chapters t \<noteq> [] \<and> \<not> isPDFHidden st \<longrightarrow>
         tocWidth st = (if isTOCCollapsed st then 48 else 240))"
  by (auto simp add: tocWidth_def hasTOC_def)

text \<open>The mocked study data, expanded, collapsed and hidden, and the state before loading.\<close>

theorem tocWidth_values_witness:
  "tocWidth (initializeStudyMode App_initial) = 240
   \<and> tocWidth ((initializeStudyMode App_initial)\<lparr>isTOCCollapsed := True\<rparr>) = 48
   \<and> tocWidth ((initializeStudyMode App_initial)\<lparr>isPDFHidden := True\<rparr>) = 0
   \<and> tocWidth App_initial = 0"
  using tocWidth_values [of "initializeStudyMode App_initial"]
    tocWidth_values [of "(initializeStudyMode App_initial)\<lparr>isTOCCollapsed := True\<rparr>"]
    tocWidth_values [of "(initializeStudyMode App_initial)\<lparr>isPDFHidden := True\<rparr>"]
    tocWidth_values [of App_initial]
  by (simp add: studyData_toc_def initializeStudyMode_def App_initial_def mockData_def)

text \<open>
  Claim C4 as stated fails for a table of contents that exists and has no chapters: the
  document is visible and the pane is not collapsed, and the width is 0, not 240.
\<close>

theorem tocWidth_empty_toc_counterexample:
  "studyData_toc ((initializeStudyMode App_initial)
        \<lparr>studyData := Some (mockData\<lparr>toc := Some \<lparr>book_id = ''b'', chapters = []\<rparr>\<rparr>)\<rparr>)
     = Some \<lparr>book_id = ''b'', chapters = []\<rparr>
   \<and> \<not> isPDFHidden ((initializeStudyMode App_initial)
        \<lparr>studyData := Some (mockData\<lparr>toc := Some \<lparr>book_id = ''b'', chapters = []\<rparr>\<rparr>)\<rparr>)
   \<and> \<not> isTOCCollapsed ((initializeStudyMode App_initial)
        \<lparr>studyData := Some (mockData\<lparr>toc := Some \<lparr>book_id = ''b'', chapters = []\<rparr>\<rparr>)\<rparr>)
   \<and> tocWidth ((initializeStudyMode App_initial)
        \<lparr>studyData := Some (mockData\<lparr>toc := Some \<lparr>book_id = ''b'', chapters = []\<rparr>\<rparr>)\<rparr>) \<noteq> 240"
  by (simp add: tocWidth_def hasTOC_def studyData_toc_def initializeStudyMode_def App_initial_def)

text \<open>
  Claim C5. Without a table of contents in the study data the page count is the default
  100 and the contents pane is not rendered (and has width 0), in every state: whatever the
  document, the position, the layout flags and the loading flag are.
\<close>

theorem no_toc_fallback:
  "studyData_toc st = None \<Longrightarrow>
     totalPages st = Finite 100 \<and> \<not> renders_TableOfContents st \<and> \<not> hasTOC st \<and> tocWidth st = 0"
  by (simp add: totalPages_def renders_TableOfContents_def hasTOC_def tocWidth_def)

text \<open>The mocked study data with its table of contents left out.\<close>

theorem no_toc_fallback_witness:
  "studyData_toc ((initializeStudyMode App_initial)\<lparr>studyData := Some (mockData\<lparr>toc := None\<rparr>)\<rparr>)
     = None
   \<and> totalPages ((initializeStudyMode App_initial)\<lparr>studyData := Some (mockData\<lparr>toc := None\<rparr>)\<rparr>)
     = Finite 100
   \<and> \<not> renders_TableOfContents
         ((initializeStudyMode App_initial)\<lparr>studyData := Some (mockData\<lparr>toc := None\<rparr>)\<rparr>)"
proof -
  have h: "studyData_toc
      ((initializeStudyMode App_initial)\<lparr>studyData := Some (mockData\<lparr>toc := None\<rparr>)\<rparr>) = None"
    by (simp add: studyData_toc_def)
  show ?thesis using h no_toc_fallback [OF h] by simp
qed

lemma Math_max_eq: "Math_max xs = (if xs = [] then NegInfinity else Finite (Max (set xs)))"
  by (induction xs) (auto simp add: max.commute)

text \<open>
  Claim C10. With a table of contents the page count is the maximum of the page numbers
  that the chapters contribute: a chapter whose sections field is \<open>null\<close> contributes the
  single page 1, any other chapter the pages of its sections. When nothing is contributed,
  as for an empty list of chapters, the count is \<open>-Infinity\<close> and not the default 100, which
  is used only when the table of contents is absent.
\<close>

theorem totalPages_with_toc:
  assumes "studyData_toc st = Some t"
  shows "(\<forall>c \<in> set (chapters t). sections c = None \<longrightarrow> chapter_pages c = [1])
     \<and> (\<forall>c \<in> set (chapters t). \<forall>ss. sections c = Some ss \<longrightarrow> chapter_pages c = map page ss)
     \<and> (concat (map chapter_pages (chapters t)) \<noteq> [] \<longrightarrow>
          totalPages st = Finite (Max (set (concat (map chapter_pages (chapters t))))))
     \<and> (concat (map chapter_pages (chapters t)) = [] \<longrightarrow> totalPages st = NegInfinity)
     \<and> (chapters t = [] \<longrightarrow> totalPages st = NegInfinity \<and> totalPages st \<noteq> Finite 100)"
  using assms by (simp add: totalPages_def Math_max_eq flatMap_def chapter_pages_def)

text \<open>
  The mocked table of contents gives 151 pages, an empty one \<open>-Infinity\<close>, and one whose
  only chapter has \<open>null\<close> for its sections gives 1.
\<close>

theorem totalPages_with_toc_witness:
  "studyData_toc (initializeStudyMode App_initial) = toc mockData
   \<and> totalPages (initializeStudyMode App_initial) = Finite 151
   \<and> totalPages (App_initial
        \<lparr>studyData := Some (mockData\<lparr>toc := Some \<lparr>book_id = ''b'', chapters = []\<rparr>\<rparr>)\<rparr>)
       = NegInfinity
   \<and> totalPages (App_initial
        \<lparr>studyData := Some (mockData\<lparr>toc := Some \<lparr>book_id = ''b'', chapters =
           [\<lparr>chapter_id = ''c1'', chapter_number = ''1'', title = ''Preface'',
             sections = None\<rparr>]\<rparr>\<rparr>)\<rparr>)
       = Finite 1"
  using totalPages_with_toc [of "initializeStudyMode App_initial" "the (toc mockData)"]
    totalPages_with_toc [of
      "App_initial\<lparr>studyData := Some (mockData\<lparr>toc := Some \<lparr>book_id = ''b'', chapters = []\<rparr>\<rparr>)\<rparr>"
      "\<lparr>book_id = ''b'', chapters = []\<rparr>"]
    totalPages_with_toc [of
      "App_initial\<lparr>studyData := Some (mockData\<lparr>toc := Some \<lparr>book_id = ''b'', chapters =
         [\<lparr>chapter_id = ''c1'', chapter_number = ''1'', title = ''Preface'',
           sections = None\<rparr>]\<rparr>\<rparr>)\<rparr>"
      "\<lparr>book_id = ''b'', chapters =
         [\<lparr>chapter_id = ''c1'', chapter_number = ''1'', title = ''Preface'',
           sections = None\<rparr>]\<rparr>"]
  by (simp add: studyData_toc_def initializeStudyMode_def mockData_def chapter_pages_def)

section \<open>The contents navigator and the current section\<close>

lemma shouldShowSections_cases:
  "shouldShowSections chapter = (\<not> spec_directly_clickable chapter)"
  by (auto simp add: shouldShowSections_def spec_directly_clickable_def
      split: option.splits list.splits)

text \<open>
  Claim C6, as the code has it. The expand arrow is rendered exactly for the chapters that
  are not directly clickable in the specification's sense. A chapter without sections
  (\<open>null\<close> or an empty list) has no arrow, and a click on it calls nothing: there is no
  first section to go to. A chapter whose single section repeats its title has no arrow, and
  when that section's page is not 0 a click on it selects the section's page with the
  section's id and the chapter's id, which \<open>App\<close> stores as the current page.
\<close>

theorem chapter_directly_clickable:
  "renders_expand_arrow chapter = (\<not> spec_directly_clickable chapter)
   \<and> ((sections chapter = None \<or> sections chapter = Some []) \<longrightarrow>
        \<not> renders_expand_arrow chapter \<and> chapter_header_onClick chapter = None)
   \<and> (sections chapter = Some [s] \<and> Section.title s = Chapter.title chapter \<and> page s \<noteq> 0 \<longrightarrow>
        \<not> renders_expand_arrow chapter
        \<and> chapter_header_onClick chapter
            = Some (page s, Some (section_id s), Some (chapter_id chapter))
        \<and> App.currentPage (onPageSelect st (chapter_header_onClick chapter)) = page s)"
  by (auto simp add: renders_expand_arrow_def hasExpandableSections_def shouldShowSections_cases
      spec_directly_clickable_def chapter_header_onClick_def handleChapterClick_def
      chapterPage_def truthy_page_def first_section_id_def onPageSelect_def
      handlePageChange_currentPage)

text \<open>The chapter "Graphs" with its one section "Graphs" on page 42.\<close>

theorem chapter_directly_clickable_witness:
  "sections single_section_chapter
     = Some [\<lparr>section_id = ''s3'', Section.title = ''Graphs'', page = 42\<rparr>]
   \<and> \<not> renders_expand_arrow single_section_chapter
   \<and> chapter_header_onClick single_section_chapter = Some (42, Some ''s3'', Some ''c3'')
   \<and> App.currentPage (onPageSelect (initializeStudyMode App_initial)
        (chapter_header_onClick single_section_chapter)) = 42"
proof -
  let ?s = "\<lparr>section_id = ''s3'', Section.title = ''Graphs'', page = 42\<rparr>"
  have h: "sections single_section_chapter = Some [?s]
           \<and> Section.title ?s = Chapter.title single_section_chapter \<and> page ?s \<noteq> 0"
    by (simp add: single_section_chapter_def)
  have r: "\<not> renders_expand_arrow single_section_chapter
        \<and> chapter_header_onClick single_section_chapter
            = Some (page ?s, Some (section_id ?s), Some (chapter_id single_section_chapter))
        \<and> App.currentPage (onPageSelect (initializeStudyMode App_initial)
              (chapter_header_onClick single_section_chapter)) = page ?s"
    using chapter_directly_clickable [of single_section_chapter ?s
        "initializeStudyMode App_initial"] h
    by blast
  have v: "page ?s = 42" "section_id ?s = ''s3''" "chapter_id single_section_chapter = ''c3''"
    by (simp_all add: single_section_chapter_def)
  from h r show ?thesis unfolding v by blast
qed

text \<open>
  Claim C6 as stated fails for a chapter with no sections: it is directly clickable and
  shows no arrow, but a click on it emits no navigation and leaves the state as it is.
\<close>

theorem chapter_without_sections_counterexample:
  "spec_directly_clickable preface_chapter
   \<and> \<not> renders_expand_arrow preface_chapter
   \<and> chapter_header_onClick preface_chapter = None
   \<and> onPageSelect (initializeStudyMode App_initial) (chapter_header_onClick preface_chapter)
       = initializeStudyMode App_initial"
  by (simp add: spec_directly_clickable_def preface_chapter_def renders_expand_arrow_def
      hasExpandableSections_def shouldShowSections_def chapter_header_onClick_def
      handleChapterClick_def chapterPage_def onPageSelect_def)

lemma scan_sections_None:
  "scan_sections c p ss = None \<longleftrightarrow> (\<forall>s \<in> set ss. page s \<noteq> p)"
  by (induction ss) auto

lemma scan_sections_Some:
  "scan_sections c p ss = Some ctx \<Longrightarrow>
     \<exists>s \<in> set ss. page s = p \<and> sectionId ctx = Some (section_id s)
        \<and> sectionName ctx = Section.title s \<and> chapterId ctx = Some (chapter_id c)
        \<and> chapterName ctx = Chapter.title c"
  by (induction ss) (auto split: if_splits)

lemma scan_chapters_None:
  "scan_chapters p cs = None \<longleftrightarrow>
     (\<forall>c \<in> set cs. \<forall>ss. sections c = Some ss \<longrightarrow> (\<forall>s \<in> set ss. page s \<noteq> p))"
proof (induction cs)
  case Nil
  then show ?case by simp
next
  case (Cons c cs)
  show ?case
  proof (cases "sections c")
    case None
    with Cons show ?thesis by simp
  next
    case (Some ss)
    show ?thesis
    proof (cases "scan_sections c p ss")
      case None
      then have "\<forall>s \<in> set ss. page s \<noteq> p" by (simp add: scan_sections_None)
      with None Some Cons show ?thesis by simp
    next
      case (Some found)
      then have "\<not> (\<forall>s \<in> set ss. page s \<noteq> p)"
        using scan_sections_None [of c p ss] by simp
      with Some \<open>sections c = Some ss\<close> show ?thesis by auto
    qed
  qed
qed

lemma scan_chapters_Some:
  "scan_chapters p cs = Some ctx \<Longrightarrow>
     \<exists>c \<in> set cs. \<exists>ss. sections c = Some ss \<and>
       (\<exists>s \<in> set ss. page s = p \<and> sectionId ctx = Some (section_id s)
          \<and> sectionName ctx = Section.title s \<and> chapterId ctx = Some (chapter_id c)
          \<and> chapterName ctx = Chapter.title c)"
proof (induction cs)
  case Nil
  then show ?case by simp
next
  case (Cons c cs)
  show ?case
  proof (cases "sections c")
    case None
    with Cons show ?thesis by auto
  next
    case (Some ss)
    show ?thesis
    proof (cases "scan_sections c p ss")
      case None
      with Some Cons show ?thesis by auto
    next
      case (Some found)
      with \<open>sections c = Some ss\<close> Cons.prems have "found = ctx" by simp
      with Some scan_sections_Some [of c p ss ctx] \<open>sections c = Some ss\<close>
      show ?thesis by auto
    qed
  qed
qed

text \<open>
  The current section. \<open>getCurrentContext\<close> returns a section exactly when the table of
  contents has a section whose page equals the current page, and the section returned is one
  on that page; there is no tolerance and no nearest match. The contents pane marks a
  section as current by the same equality. In the scenario of the specification, after
  navigating to page 11 the current section is "1.2"; after navigating to page 10, which no
  section has, no section is returned.
\<close>

lemma getCurrentContext_exact:
  "(sectionId (getCurrentContext props) = None \<longleftrightarrow>
      \<not> (\<exists>t. tocData props = Some t \<and>
            (\<exists>c \<in> set (chapters t). \<exists>ss. sections c = Some ss \<and>
               (\<exists>s \<in> set ss. page s = ToolPanelProps.currentPage props))))
   \<and> (\<forall>found. sectionId (getCurrentContext props) = Some found \<longrightarrow>
        (\<exists>t. tocData props = Some t \<and>
           (\<exists>c \<in> set (chapters t). \<exists>ss. sections c = Some ss \<and>
              (\<exists>s \<in> set ss. page s = ToolPanelProps.currentPage props \<and> section_id s = found
                 \<and> sectionName (getCurrentContext props) = Section.title s
                 \<and> chapterId (getCurrentContext props) = Some (chapter_id c)))))
   \<and> isCurrentSection p s = (p = page s)
   \<and> sectionName (getCurrentContext (ToolPanel_props
          (handlePageChange scenario_App 11 (Some ''1.2-id'') (Some ''Ch1-id'')) scenario_data))
       = ''1.2''
   \<and> getCurrentContext (ToolPanel_props
          (handlePageChange scenario_App 10 None None) scenario_data) = no_context"
proof -
  let ?p = "ToolPanelProps.currentPage props"
  have a: "sectionId (getCurrentContext props) = None \<longleftrightarrow>
      \<not> (\<exists>t. tocData props = Some t \<and>
            (\<exists>c \<in> set (chapters t). \<exists>ss. sections c = Some ss \<and>
               (\<exists>s \<in> set ss. page s = ?p)))"
  proof (cases "tocData props")
    case None
    then show ?thesis by (simp add: getCurrentContext_def no_context_def)
  next
    case (Some t)
    show ?thesis
    proof (cases "scan_chapters ?p (chapters t)")
      case None
      with Some scan_chapters_None [of ?p "chapters t"] show ?thesis
        by (auto simp add: getCurrentContext_def no_context_def)
    next
      case (Some ctx)
      with \<open>tocData props = Some t\<close> scan_chapters_Some [of ?p "chapters t" ctx] show ?thesis
        by (auto simp add: getCurrentContext_def)
    qed
  qed
  have b: "\<forall>found. sectionId (getCurrentContext props) = Some found \<longrightarrow>
        (\<exists>t. tocData props = Some t \<and>
           (\<exists>c \<in> set (chapters t). \<exists>ss. sections c = Some ss \<and>
              (\<exists>s \<in> set ss. page s = ?p \<and> section_id s = found
                 \<and> sectionName (getCurrentContext props) = Section.title s
                 \<and> chapterId (getCurrentContext props) = Some (chapter_id c))))"
  proof (cases "tocData props")
    case None
    then show ?thesis by (simp add: getCurrentContext_def no_context_def)
  next
    case (Some t)
    show ?thesis
    proof (cases "scan_chapters ?p (chapters t)")
      case None
      with Some show ?thesis by (simp add: getCurrentContext_def no_context_def)
    next
      case (Some ctx)
      with \<open>tocData props = Some t\<close> scan_chapters_Some [of ?p "chapters t" ctx] show ?thesis
        by (fastforce simp add: getCurrentContext_def)
    qed
  qed
  have c: "isCurrentSection p s = (p = page s)"
    by (simp add: isCurrentSection_def)
  have d: "sectionName (getCurrentContext (ToolPanel_props
          (handlePageChange scenario_App 11 (Some ''1.2-id'') (Some ''Ch1-id'')) scenario_data))
       = ''1.2''"
    by (simp add: getCurrentContext_def ToolPanel_props_def handlePageChange_currentPage
        scenario_data_def scenario_toc_def)
  have e: "getCurrentContext (ToolPanel_props
          (handlePageChange scenario_App 10 None None) scenario_data) = no_context"
    by (simp add: getCurrentContext_def ToolPanel_props_def handlePageChange_currentPage
        scenario_data_def scenario_toc_def)
  from a b c d e show ?thesis by blast
qed

text \<open>The scenario, at page 11 and at page 10.\<close>

lemma getCurrentContext_scenario:
  "sectionId (getCurrentContext (ToolPanel_props
       (handlePageChange scenario_App 11 (Some ''1.2-id'') (Some ''Ch1-id'')) scenario_data))
     = Some ''1.2-id''
   \<and> chapterId (getCurrentContext (ToolPanel_props
       (handlePageChange scenario_App 11 (Some ''1.2-id'') (Some ''Ch1-id'')) scenario_data))
     = Some ''Ch1-id''
   \<and> sectionId (getCurrentContext (ToolPanel_props
       (handlePageChange scenario_App 10 None None) scenario_data)) = None
   \<and> isCurrentSection 11 \<lparr>section_id = ''1.2-id'', Section.title = ''1.2'', page = 11\<rparr>
   \<and> \<not> isCurrentSection 10 \<lparr>section_id = ''1.2-id'', Section.title = ''1.2'', page = 11\<rparr>"
  using getCurrentContext_exact [of "ToolPanel_props
       (handlePageChange scenario_App 11 (Some ''1.2-id'') (Some ''Ch1-id'')) scenario_data"
       11 "\<lparr>section_id = ''1.2-id'', Section.title = ''1.2'', page = 11\<rparr>"]
    getCurrentContext_exact [of "ToolPanel_props
       (handlePageChange scenario_App 10 None None) scenario_data"
       10 "\<lparr>section_id = ''1.2-id'', Section.title = ''1.2'', page = 11\<rparr>"]
  by (simp add: getCurrentContext_def ToolPanel_props_def handlePageChange_currentPage
      scenario_data_def scenario_toc_def no_context_def)



section \<open>Voice capture\<close>

text \<open>
  Claim C8. When the capture does not start (the environment has no \<open>getUserMedia\<close>, the
  permission is denied, or the recorder cannot be created or started) and the panel is idle,
  the toggle runs \<open>startRecording\<close>, which reports one error notification; the recording
  flag stays false, the timer reference and the running timers are unchanged, and so are
  the elapsed time and the compose box.
\<close>

theorem startRecording_failure:
  assumes "capture_failed env" and "\<not> isRecording st"
  shows "toggleRecording st env = startRecording st env
     \<and> \<not> isRecording (startRecording st env)
     \<and> recordingTimerRef (startRecording st env) = recordingTimerRef st
     \<and> intervals (startRecording st env) = intervals st
     \<and> recordingTime (startRecording st env) = recordingTime st
     \<and> inputValue (startRecording st env) = inputValue st
     \<and> (\<exists>msg. toasts (startRecording st env) = toasts st @ [Toast_error msg])"
  using assms
  by (cases env) (simp_all add: capture_failed_def toggleRecording_def startRecording_def)

text \<open>The microphone permission is denied in a fresh panel.\<close>

theorem startRecording_failure_witness:
  "capture_failed GetUserMedia_rejected \<and> \<not> isRecording ToolPanel_initial
   \<and> \<not> isRecording (toggleRecording ToolPanel_initial GetUserMedia_rejected)
   \<and> intervals (toggleRecording ToolPanel_initial GetUserMedia_rejected) = []
   \<and> inputValue (toggleRecording ToolPanel_initial GetUserMedia_rejected) = []
   \<and> toasts (toggleRecording ToolPanel_initial GetUserMedia_rejected)
       = [Toast_error ''Failed to start recording.'']"
proof -
  have h: "capture_failed GetUserMedia_rejected" "\<not> isRecording ToolPanel_initial"
    by (simp_all add: capture_failed_def ToolPanel_initial_def)
  from startRecording_failure [OF h] h show ?thesis
    by (simp add: startRecording_def ToolPanel_initial_def)
qed

section \<open>Sending a message\<close>

lemma sendChatMessage_fulfilled:
  "\<exists>response. sendChatMessage props st now c ag hl = Inr response
     \<and> response_content response = mock_content ag hl"
  by (simp add: sendChatMessage_def Let_def)

lemma call_suppressed:
  "isLoading st \<or> trim (send_content st mc) = [] \<Longrightarrow>
     handleSendMessage_call props st now mc ag hl = (st, None)"
  by (auto simp add: handleSendMessage_call_def Let_def)

lemma call_accepted:
  assumes "\<not> isLoading st" and "trim (send_content st mc) \<noteq> []"
  shows "\<exists>u st1 response.
     handleSendMessage_call props st now mc ag hl
       = (st1, Some \<lparr>pending_model = selectedModel st, pending_result = Inr response\<rparr>)
     \<and> messages st1 = messages st @ [u] \<and> sender u = User \<and> content u = send_content st mc
     \<and> isLoading st1 \<and> activeOverlay st1 = activeOverlay st
     \<and> response_content response = mock_content ag (case hl of Some h \<Rightarrow> Some h | None \<Rightarrow> contextText st)"
  using assms sendChatMessage_fulfilled [of props st now "send_content st mc" ag
      "case hl of Some h \<Rightarrow> Some h | None \<Rightarrow> contextText st"]
  by (auto simp add: handleSendMessage_call_def Let_def)

lemma settled_fulfilled:
  assumes "pending_result pending = Inr response"
  shows "\<exists>a. messages (handleSendMessage_settled st later pending) = messages st @ [a]
      \<and> sender a = Ai \<and> content a = response_content response
      \<and> toolResponse a = response_tool_ref response
      \<and> \<not> isLoading (handleSendMessage_settled st later pending)"
  using assms by (simp add: handleSendMessage_settled_def Let_def)

lemma settled_isLoading: "\<not> isLoading (handleSendMessage_settled st later pending)"
  by (simp add: handleSendMessage_settled_def Let_def split: sum.splits)

lemma settled_activeOverlay:
  "activeOverlay (handleSendMessage_settled st later pending) = activeOverlay st"
  by (simp add: handleSendMessage_settled_def Let_def split: sum.splits)

lemma call_activeOverlay:
  "activeOverlay (fst (handleSendMessage_call props st now mc ag hl)) = activeOverlay st"
  by (simp add: handleSendMessage_call_def Let_def)

text \<open>
  Claim C2, as the code has it. While the loading flag is set, a call of
  \<open>handleSendMessage\<close> returns the state as it is: no message is appended and no request
  is made. The same holds when the content is blank, that is, empty after \<open>trim\<close>. When
  the flag is clear and the content is not blank, the call appends exactly one user message
  with that content and sets the flag, so that any further call before the completion is
  suppressed; the request of the mocked service is always fulfilled, and its completion, in
  whatever state the panel is by then, appends exactly one assistant message and clears the
  flag. Without interleaved events the message list grows by the user message followed by
  the assistant message.
\<close>

theorem handleSendMessage_protocol:
  "(isLoading st \<longrightarrow> handleSendMessage_call props st now mc ag hl = (st, None))
   \<and> (trim (send_content st mc) = [] \<longrightarrow> handleSendMessage_call props st now mc ag hl = (st, None))
   \<and> (\<not> isLoading st \<and> trim (send_content st mc) \<noteq> [] \<longrightarrow>
        (\<exists>u st1 pending response.
           handleSendMessage_call props st now mc ag hl = (st1, Some pending)
           \<and> messages st1 = messages st @ [u] \<and> sender u = User
           \<and> content u = send_content st mc
           \<and> isLoading st1
           \<and> handleSendMessage_call props st1 now' mc' ag' hl' = (st1, None)
           \<and> pending_result pending = Inr response
           \<and> (\<forall>st2. \<exists>a. messages (handleSendMessage_settled st2 later pending) = messages st2 @ [a]
                  \<and> sender a = Ai \<and> content a = response_content response
                  \<and> \<not> isLoading (handleSendMessage_settled st2 later pending))
           \<and> (\<exists>a. messages (handleSendMessage props st now later mc ag hl) = messages st @ [u, a]
                  \<and> sender a = Ai)
           \<and> \<not> isLoading (handleSendMessage props st now later mc ag hl)))"
proof (intro conjI impI)
  assume "isLoading st"
  then show "handleSendMessage_call props st now mc ag hl = (st, None)"
    by (simp add: call_suppressed)
next
  assume "trim (send_content st mc) = []"
  then show "handleSendMessage_call props st now mc ag hl = (st, None)"
    by (simp add: call_suppressed)
next
  assume a: "\<not> isLoading st \<and> trim (send_content st mc) \<noteq> []"
  then obtain u st1 response where
    c: "handleSendMessage_call props st now mc ag hl
       = (st1, Some \<lparr>pending_model = selectedModel st, pending_result = Inr response\<rparr>)"
    and m: "messages st1 = messages st @ [u]" "sender u = User" "content u = send_content st mc"
    and l: "isLoading st1"
    using call_accepted [of st mc props now ag hl] by blast
  let ?pending = "\<lparr>pending_model = selectedModel st, pending_result = Inr response\<rparr>"
  have p: "pending_result ?pending = Inr response" by simp
  have s: "\<forall>st2. \<exists>a. messages (handleSendMessage_settled st2 later ?pending) = messages st2 @ [a]
                  \<and> sender a = Ai \<and> content a = response_content response
                  \<and> \<not> isLoading (handleSendMessage_settled st2 later ?pending)"
    using settled_fulfilled [OF p] by blast
  have w: "handleSendMessage props st now later mc ag hl = handleSendMessage_settled st1 later ?pending"
    using c by (simp add: handleSendMessage_def)
  from s obtain a where
    "messages (handleSendMessage_settled st1 later ?pending) = messages st1 @ [a]" "sender a = Ai"
    by blast
  with w m have whole: "\<exists>a. messages (handleSendMessage props st now later mc ag hl) = messages st @ [u, a]
                  \<and> sender a = Ai" by simp
  have fin: "\<not> isLoading (handleSendMessage props st now later mc ag hl)"
    using w by (simp add: settled_isLoading)
  have again: "handleSendMessage_call props st1 now' mc' ag' hl' = (st1, None)"
    using l by (simp add: call_suppressed)
  show "\<exists>u st1 pending response.
           handleSendMessage_call props st now mc ag hl = (st1, Some pending)
           \<and> messages st1 = messages st @ [u] \<and> sender u = User
           \<and> content u = send_content st mc
           \<and> isLoading st1
           \<and> handleSendMessage_call props st1 now' mc' ag' hl' = (st1, None)
           \<and> pending_result pending = Inr response
           \<and> (\<forall>st2. \<exists>a. messages (handleSendMessage_settled st2 later pending) = messages st2 @ [a]
                  \<and> sender a = Ai \<and> content a = response_content response
                  \<and> \<not> isLoading (handleSendMessage_settled st2 later pending))
           \<and> (\<exists>a. messages (handleSendMessage props st now later mc ag hl) = messages st @ [u, a]
                  \<and> sender a = Ai)
           \<and> \<not> isLoading (handleSendMessage props st now later mc ag hl)"
    using c m l again p s whole fin by blast
qed


lemma blank_spaces: "trim ''  '' = []"
  by (simp add: trim_def js_whitespace_def)

text \<open>
  Claim C2 as stated fails for a content that is not empty but blank: with two spaces in the
  compose box and the flag clear, the Enter key's call returns early and no message is
  appended.
\<close>

theorem handleSendMessage_blank_counterexample:
  "inputValue (ToolPanel_initial\<lparr>inputValue := ''  ''\<rparr>) \<noteq> []
   \<and> \<not> isLoading (ToolPanel_initial\<lparr>inputValue := ''  ''\<rparr>)
   \<and> send_content (ToolPanel_initial\<lparr>inputValue := ''  ''\<rparr>) None = ''  ''
   \<and> handleSendMessage_call mock_props (ToolPanel_initial\<lparr>inputValue := ''  ''\<rparr>) 1000 None False None
       = (ToolPanel_initial\<lparr>inputValue := ''  ''\<rparr>, None)
   \<and> messages (handleSendMessage mock_props (ToolPanel_initial\<lparr>inputValue := ''  ''\<rparr>)
         1000 2000 None False None) = []"
  by (simp add: handleSendMessage_def handleSendMessage_call_def send_content_def Let_def
      blank_spaces ToolPanel_initial_def)

lemma trim_hello: "trim ''What is a heap?'' = ''What is a heap?''"
  by (simp add: trim_def js_whitespace_def)

text \<open>A question typed into a fresh panel and sent.\<close>

theorem handleSendMessage_protocol_witness:
  "\<not> isLoading (ToolPanel_initial\<lparr>inputValue := ''What is a heap?''\<rparr>)
   \<and> trim (send_content (ToolPanel_initial\<lparr>inputValue := ''What is a heap?''\<rparr>) None) \<noteq> []
   \<and> map sender (messages (handleSendMessage mock_props
          (ToolPanel_initial\<lparr>inputValue := ''What is a heap?''\<rparr>) 1000 2000 None False None))
       = [User, Ai]
   \<and> \<not> isLoading (handleSendMessage mock_props
          (ToolPanel_initial\<lparr>inputValue := ''What is a heap?''\<rparr>) 1000 2000 None False None)"
proof -
  let ?st = "ToolPanel_initial\<lparr>inputValue := ''What is a heap?''\<rparr>"
  have h: "\<not> isLoading ?st \<and> trim (send_content ?st None) \<noteq> []"
    by (simp add: ToolPanel_initial_def send_content_def trim_hello)
  have e: "messages ?st = []"
    by (simp add: ToolPanel_initial_def)
  from handleSendMessage_protocol [of ?st mock_props 1000 None False None 0 None False None 2000] h
  obtain u a where
    "messages (handleSendMessage mock_props ?st 1000 2000 None False None) = messages ?st @ [u, a]"
    "sender u = User" "sender a = Ai"
    and "\<not> isLoading (handleSendMessage mock_props ?st 1000 2000 None False None)"
    by blast
  with h e show ?thesis by simp
qed

section \<open>The tool overlay\<close>

text \<open>
  Claim C9. Neither part of \<open>handleSendMessage\<close> changes \<open>activeOverlay\<close>, nor do the
  entry points that send on the user's behalf (\<open>handleDirectToolGeneration\<close>,
  \<open>handleToolUse\<close>). When the response carries a tool artifact, the assistant message
  appended on completion stores the reference to it: the type, the content and the id if
  there is one; without an artifact it stores none. The overlay is opened by the open request
  of a message (\<open>handleOpenTool\<close>, through \<open>handleOpenToolMessage\<close>).
\<close>

theorem completion_keeps_overlay:
  "activeOverlay (handleSendMessage_settled st later pending) = activeOverlay st
   \<and> activeOverlay (fst (handleSendMessage_call props st now mc ag hl)) = activeOverlay st
   \<and> activeOverlay (handleSendMessage props st now later mc ag hl) = activeOverlay st
   \<and> (\<forall>response payload.
         pending_result pending = Inr response \<and> tool_response response = Some payload \<longrightarrow>
           toolResponse (last (messages (handleSendMessage_settled st later pending)))
             = Some \<lparr>ref_type = tool_type response, ref_content = payload,
                     toolResponseId = or_undefined (tool_response_id response)\<rparr>)
   \<and> (\<forall>response.
         pending_result pending = Inr response \<and> tool_response response = None \<longrightarrow>
           toolResponse (last (messages (handleSendMessage_settled st later pending))) = None)
   \<and> activeOverlay (fst (handleDirectToolGeneration props st now selected ctx toolType))
       = activeOverlay st
   \<and> activeOverlay (fst (handleToolUse props st now tool_name)) = activeOverlay st
   \<and> activeOverlay (handleOpenToolMessage st r) = Some r
   \<and> (toolResponse msg = Some r \<and> content_length (ref_content r) > 0 \<longrightarrow>
        activeOverlay (handleOpenTool st msg) = Some r)"
proof -
  have a: "activeOverlay (handleSendMessage props st now later mc ag hl) = activeOverlay st"
  proof (cases "handleSendMessage_call props st now mc ag hl")
    case (Pair st1 p)
    with call_activeOverlay [of props st now mc ag hl] have "activeOverlay st1 = activeOverlay st"
      by simp
    with Pair show ?thesis
      by (cases p) (simp_all add: handleSendMessage_def settled_activeOverlay)
  qed
  have b: "activeOverlay (fst (handleDirectToolGeneration props st now selected ctx toolType))
       = activeOverlay st"
    using call_activeOverlay [of props st now _ True "Some \<lparr>hl_text = selected, hl_context = ctx\<rparr>"]
    by (simp add: handleDirectToolGeneration_def Let_def split_beta)
  have c: "activeOverlay (fst (handleToolUse props st now tool_name)) = activeOverlay st"
    using call_activeOverlay [of props st now _ True None]
    by (simp add: handleToolUse_def Let_def split_beta)
  have d: "\<forall>response payload.
         pending_result pending = Inr response \<and> tool_response response = Some payload \<longrightarrow>
           toolResponse (last (messages (handleSendMessage_settled st later pending)))
             = Some \<lparr>ref_type = tool_type response, ref_content = payload,
                     toolResponseId = or_undefined (tool_response_id response)\<rparr>"
    by (simp add: handleSendMessage_settled_def Let_def response_tool_ref_def)
  have e: "\<forall>response.
         pending_result pending = Inr response \<and> tool_response response = None \<longrightarrow>
           toolResponse (last (messages (handleSendMessage_settled st later pending))) = None"
    by (simp add: handleSendMessage_settled_def Let_def response_tool_ref_def)
  have f: "activeOverlay (handleOpenToolMessage st r) = Some r"
    by (simp add: handleOpenToolMessage_def)
  have g: "toolResponse msg = Some r \<and> content_length (ref_content r) > 0 \<longrightarrow>
        activeOverlay (handleOpenTool st msg) = Some r"
    by (simp add: handleOpenTool_def handleOpenToolMessage_def)
  from a b c d e f g settled_activeOverlay [of st later pending]
    call_activeOverlay [of props st now mc ag hl]
  show ?thesis by blast
qed

lemma quiz_call: "snd (handleToolUse mock_props ToolPanel_initial 1000 ''Quiz'') = Some quiz_pending"
  by code_simp

text \<open>
  The "Quiz" button in a fresh panel: the completion stores the quiz artifact in the
  assistant message and the overlay stays closed.
\<close>

theorem completion_keeps_overlay_witness:
  "snd (handleToolUse mock_props ToolPanel_initial 1000 ''Quiz'') = Some quiz_pending
   \<and> pending_result quiz_pending = Inr quiz_response
   \<and> tool_response quiz_response = Some (Mock_response Quiz_array)
   \<and> toolResponse (last (messages (handleSendMessage_settled
         (fst (handleToolUse mock_props ToolPanel_initial 1000 ''Quiz'')) 2000 quiz_pending)))
       = Some \<lparr>ref_type = Some ''quiz'', ref_content = Mock_response Quiz_array,
               toolResponseId = Some ''mock-response-1000''\<rparr>
   \<and> activeOverlay (handleSendMessage_settled
         (fst (handleToolUse mock_props ToolPanel_initial 1000 ''Quiz'')) 2000 quiz_pending) = None"
proof -
  let ?st1 = "fst (handleToolUse mock_props ToolPanel_initial 1000 ''Quiz'')"
  have h: "pending_result quiz_pending = Inr quiz_response
           \<and> tool_response quiz_response = Some (Mock_response Quiz_array)"
    by (simp add: quiz_pending_def quiz_response_def)
  have v: "tool_type quiz_response = Some ''quiz''"
    "or_undefined (tool_response_id quiz_response) = Some ''mock-response-1000''"
    by (simp_all add: quiz_response_def or_undefined_def)
  have o: "activeOverlay ?st1 = activeOverlay ToolPanel_initial"
    using completion_keeps_overlay [where st = ToolPanel_initial and props = mock_props
        and now = 1000 and tool_name = "''Quiz''"]
    by blast
  note k = completion_keeps_overlay [where st = ?st1 and later = 2000 and pending = quiz_pending]
  from k have s: "activeOverlay (handleSendMessage_settled ?st1 2000 quiz_pending) = activeOverlay ?st1"
    by blast
  from k h have t: "toolResponse (last (messages (handleSendMessage_settled ?st1 2000 quiz_pending)))
             = Some \<lparr>ref_type = tool_type quiz_response, ref_content = Mock_response Quiz_array,
                     toolResponseId = or_undefined (tool_response_id quiz_response)\<rparr>"
    by blast
  have i: "activeOverlay ToolPanel_initial = None"
    by (simp add: ToolPanel_initial_def)
  from h o s t i quiz_call show ?thesis
    unfolding v by simp
qed

end
